theory Spec2Isabelle
  imports Complex_Main "HOL-Library.AList"
begin

section \<open>JavaScript numbers\<close>

text \<open>
  The engine of \<^verbatim>\<open>bot.js\<close> computes with JavaScript numbers. A finite number is
  modelled as an exact \<^typ>\<open>real\<close>: rounding of doubles is not part of the model.
  Where the source can produce a value that is not a finite number, the model says so
  explicitly: a table cell is a \<open>jsnum\<close> (a finite number or \<open>NaN\<close>, which is also what
  \<^verbatim>\<open>undefined\<close> becomes in arithmetic), and a quotient whose divisor may be zero is a
  \<open>quotient\<close>.
\<close>

datatype jsnum = Num real | NaN

fun num_lift2 :: "(real \<Rightarrow> real \<Rightarrow> real) \<Rightarrow> jsnum \<Rightarrow> jsnum \<Rightarrow> jsnum" where
  "num_lift2 f (Num a) (Num b) = Num (f a b)"
| "num_lift2 f _ _ = NaN"

definition num_add :: "jsnum \<Rightarrow> jsnum \<Rightarrow> jsnum" where
  "num_add = num_lift2 (+)"

definition num_sub :: "jsnum \<Rightarrow> jsnum \<Rightarrow> jsnum" where
  "num_sub = num_lift2 (-)"

definition num_mul :: "jsnum \<Rightarrow> jsnum \<Rightarrow> jsnum" where
  "num_mul = num_lift2 (*)"

definition num_max :: "jsnum \<Rightarrow> jsnum \<Rightarrow> jsnum" where
  "num_max = num_lift2 max"

text \<open>\<^verbatim>\<open>a > b\<close>: false as soon as one side is \<open>NaN\<close>.\<close>

fun num_gt :: "jsnum \<Rightarrow> jsnum \<Rightarrow> bool" where
  "num_gt (Num a) (Num b) = (a > b)"
| "num_gt _ _ = False"

text \<open>
  \<^verbatim>\<open>Math.max(...values)\<close>. On no argument the source yields \<open>-Infinity\<close>; the only caller
  (\<open>updateMetaQTable\<close>) reaches that with an empty row, where the cell it reads is
  \<^verbatim>\<open>undefined\<close> and the value it stores is \<open>NaN\<close> whatever the maximum is.
\<close>

fun num_max_list :: "jsnum list \<Rightarrow> jsnum" where
  "num_max_list [] = NaN"
| "num_max_list [v] = v"
| "num_max_list (v # vs) = num_max v (num_max_list vs)"

datatype quotient = Finite real | PosInfinity | NegInfinity | NotANumber

text \<open>\<^verbatim>\<open>a / b\<close> for finite \<open>a\<close> and \<open>b\<close>.\<close>

definition js_div :: "real \<Rightarrow> real \<Rightarrow> quotient" where
  "js_div a b =
     (if b \<noteq> 0 then Finite (a / b)
      else if a > 0 then PosInfinity
      else if a < 0 then NegInfinity
      else NotANumber)"

text \<open>\<^verbatim>\<open>a % b\<close> on integers: the remainder takes the sign of the dividend.\<close>

definition js_rem :: "int \<Rightarrow> int \<Rightarrow> int" where
  "js_rem a b = sgn a * (\<bar>a\<bar> mod \<bar>b\<bar>)"

text \<open>\<^verbatim>\<open>Math.round\<close>: to the nearest integer, halves upwards.\<close>

definition js_round :: "real \<Rightarrow> real" where
  "js_round x = of_int \<lfloor>x + 1 / 2\<rfloor>"

text \<open>\<^verbatim>\<open>xs.slice(-n)\<close> for a natural \<open>n\<close>: the last \<open>n\<close> elements; \<^verbatim>\<open>slice(-0)\<close> is the whole array.\<close>

definition slice_last :: "nat \<Rightarrow> 'a list \<Rightarrow> 'a list" where
  "slice_last n xs = (if n = 0 then xs else drop (length xs - n) xs)"

datatype js_error = TypeError

section \<open>Data model\<close>

record tick =
  epoch :: int
  quote :: real
  digit :: int


text \<open>
  An object with string keys is an association list in insertion order: \<^verbatim>\<open>o[k]\<close> is
  \<^const>\<open>map_of\<close>, and \<^verbatim>\<open>o[k] = v\<close> is \<^const>\<open>AList.update\<close>, which replaces the value of a
  key that is there and appends a key that is not.
\<close>

type_synonym row = "(string \<times> jsnum) list"
type_synonym table = "(string \<times> row) list"

text \<open>Reading a cell for arithmetic: a missing key reads \<^verbatim>\<open>undefined\<close>, which computes as \<open>NaN\<close>.\<close>

definition lookup_num :: "row \<Rightarrow> string \<Rightarrow> jsnum" where
  "lookup_num r k = (case map_of r k of Some v \<Rightarrow> v | None \<Rightarrow> NaN)"

definition getDefaultQTable :: table where
  "getDefaultQTable =
     [(''odd'', [(''odd'', Num 0.5), (''even'', Num 0.5)]),
      (''even'', [(''odd'', Num 0.5), (''even'', Num 0.5)])]"

definition getDefaultDeepQTable :: table where
  "getDefaultDeepQTable =
     concat (map (\<lambda>volatility. concat (map (\<lambda>trend. map (\<lambda>streak.
         (volatility @ ''_'' @ trend @ ''_'' @ streak, [(''odd'', Num 0.5), (''even'', Num 0.5)]))
       [''short'', ''medium'', ''long''])
       [''bullish'', ''neutral'', ''bearish'']))
       [''low'', ''medium'', ''high''])"

definition getDefaultMetaQTable :: table where
  "getDefaultMetaQTable =
     concat (map (\<lambda>vol. map (\<lambda>ent.
         (vol @ ''_'' @ ent,
          [(''conservative'', Num 0.5), (''balanced'', Num 0.5), (''aggressive'', Num 0.5)]))
       [''low'', ''medium'', ''high''])
       [''low'', ''medium'', ''high''])"

record perf =
  correct :: nat
  total :: nat

text \<open>The keys of \<open>modelPerformance\<close>, in the order of \<open>initModelPerformance\<close>.\<close>

datatype model =
  M_stat | M_markov | M_trend | M_qlearning | M_streak | M_pattern | M_entropy | M_cycle

definition models :: "model list" where
  "models = [M_stat, M_markov, M_trend, M_qlearning, M_streak, M_pattern, M_entropy, M_cycle]"

definition initModelPerformance :: "model \<Rightarrow> perf" where
  "initModelPerformance = (\<lambda>m. \<lparr>correct = 0, total = 0\<rparr>)"

record patternItem =
  sequence :: "int list"
  nextOutcome :: string
  occurrences :: nat
  successes :: nat
  successRate :: real

record contextEntry =
  c_volatility :: real
  c_entropy :: real
  c_streak :: nat
  c_confidence :: real
  c_prediction :: string
  c_result :: string
  c_timestamp :: int

text \<open>
  One entry of \<open>tradeHistory\<close>: the \<open>tradeData\<close> of \<open>analyzeAndTrade\<close>, the fields
  \<open>executeTrade\<close> adds, and the profit \<open>processContractResult\<close> stores once it is known.
\<close>

record trade =
  t_state :: string
  t_deepState :: string
  t_confidence :: real
  t_smoothedConfidence :: real
  t_entropy :: real
  t_volatility :: real
  t_streak :: nat
  t_modelPredictions :: "model \<Rightarrow> string"
  t_weights :: "model \<Rightarrow> real"
  t_consensusAgreement :: real
  t_prediction :: string
  t_stake :: real
  t_timestamp :: int
  t_consecutiveLosses :: nat
  t_mode :: string
  t_healthScore :: real
  t_dataIntegrity :: real
  t_profit :: "real option"

text \<open>
  The knobs read through \<^verbatim>\<open>config.get\<close> and \<^verbatim>\<open>config.baseStake\<close>. The file
  \<^verbatim>\<open>config.json\<close> they come from is not part of the sources, so they are parameters.
\<close>

record config =
  baseStake :: real
  martingaleMultiplier :: real
  baseLearningRate :: real
  learningRateDecay :: real
  discountFactor :: real
  maxHistory :: nat
  maxContextMemory :: nat
  maxPatternMemory :: nat

text \<open>The fields of \<open>DerivTradingBot\<close> that the engine reads and writes.\<close>

record engine =
  isBotRunning :: bool
  isPending :: bool
  currentContractId :: "string option"
  nextTradeTime :: int
  tickHistory :: "tick list"
  tradeHistory :: "trade list"
  qTable :: table
  deepQTable :: table
  metaQTable :: table
  patternMemory :: "patternItem list"
  contextMemory :: "contextEntry list"
  modelPerformance :: "model \<Rightarrow> perf"
  wins :: nat
  losses :: nat
  consecutiveLosses :: nat
  currentLearningRate :: real
  smoothedConfidence :: real
  currentMode :: string
  lastHealthScore :: real
  integrityScore :: real
  recentAnomalies :: real
  lastPerformanceLog :: int

text \<open>The state the constructor builds at time \<open>now\<close> (\<^verbatim>\<open>Date.now()\<close>), with the default tables
  \<open>loadPersistedData\<close> falls back to.\<close>

definition initialEngine :: "config \<Rightarrow> int \<Rightarrow> engine" where
  "initialEngine cfg now =
     \<lparr>isBotRunning = False, isPending = False, currentContractId = None, nextTradeTime = 0,
      tickHistory = [], tradeHistory = [],
      qTable = getDefaultQTable, deepQTable = getDefaultDeepQTable,
      metaQTable = getDefaultMetaQTable,
      patternMemory = [], contextMemory = [], modelPerformance = initModelPerformance,
      wins = 0, losses = 0, consecutiveLosses = 0,
      currentLearningRate = baseLearningRate cfg, smoothedConfidence = 0.5,
      currentMode = ''balanced'', lastHealthScore = 1,
      integrityScore = 1, recentAnomalies = 0, lastPerformanceLog = now\<rparr>"

section \<open>Adaptive weighting\<close>

text \<open>
  \<open>getAdaptiveWeights\<close>, step by step. The first loop squares each model's accuracy and
  adds the squares up; the second normalises (or takes \<open>1 / 8\<close> when the sum is not
  positive) and applies the floor; the last divides by the sum of the floored weights.
  The first two divisions stand under the source's own guards
  (\<^verbatim>\<open>perf.total > 0\<close>, \<^verbatim>\<open>totalAccuracy > 0\<close>); the last one has none, so the model
  returns \<open>None\<close> where its divisor is zero (the source would store \<open>Infinity\<close>).
\<close>

definition accuracy :: "perf \<Rightarrow> real" where
  "accuracy p = (if total p > 0 then real (correct p) / real (total p) else 0.5)"

definition squaredAccuracy :: "(model \<Rightarrow> perf) \<Rightarrow> model \<Rightarrow> real" where
  "squaredAccuracy mp m = (accuracy (mp m))\<^sup>2"

definition totalAccuracy :: "(model \<Rightarrow> perf) \<Rightarrow> real" where
  "totalAccuracy mp = sum_list (map (squaredAccuracy mp) models)"

definition normalizedWeight :: "(model \<Rightarrow> perf) \<Rightarrow> model \<Rightarrow> real" where
  "normalizedWeight mp m =
     (if totalAccuracy mp > 0 then squaredAccuracy mp m / totalAccuracy mp
      else 1 / real (length models))"

definition flooredWeight :: "(model \<Rightarrow> perf) \<Rightarrow> model \<Rightarrow> real" where
  "flooredWeight mp m = max 0.05 (normalizedWeight mp m)"

definition flooredTotal :: "(model \<Rightarrow> perf) \<Rightarrow> real" where
  "flooredTotal mp = sum_list (map (flooredWeight mp) models)"

definition getAdaptiveWeights :: "(model \<Rightarrow> perf) \<Rightarrow> (model \<Rightarrow> real) option" where
  "getAdaptiveWeights mp =
     (if flooredTotal mp = 0 then None
      else Some (\<lambda>m. flooredWeight mp m / flooredTotal mp))"

text \<open>One model always right, the seven others always wrong, after one trade.\<close>

definition skewedPerformance :: "model \<Rightarrow> perf" where
  "skewedPerformance m =
     (if m = M_stat then \<lparr>correct = 1, total = 1\<rparr> else \<lparr>correct = 0, total = 1\<rparr>)"

text \<open>Every model wrong on its only trade: all squared accuracies are zero.\<close>

definition allWrongPerformance :: "model \<Rightarrow> perf" where
  "allWrongPerformance m = \<lparr>correct = 0, total = 1\<rparr>"

section \<open>Feature extractors\<close>

text \<open>
  \<open>calculateEMA\<close> (always called without \<open>alpha\<close>). The extractors divide by \<open>window\<close> or
  read \<^verbatim>\<open>data[data.length - window]\<close>; every caller passes a literal window of 10, 20 or
  50. For \<open>window = 0\<close> \<open>calculateEMA\<close> throws in the source (it reads the \<open>quote\<close> of
  \<^verbatim>\<open>undefined\<close>); the model's value there stands for nothing.
\<close>

definition calculateEMA :: "tick list \<Rightarrow> nat \<Rightarrow> real" where
  "calculateEMA data window =
     (if length data < window then 0
      else let alpha = 2 / (real window + 1) in
        case drop (length data - window) data of
          [] \<Rightarrow> 0
        | t # ts \<Rightarrow> fold (\<lambda>x ema. alpha * quote x + (1 - alpha) * ema) ts (quote t))"

definition calculateEMAs :: "tick list \<Rightarrow> real \<times> real" where
  "calculateEMAs data = (calculateEMA data 10, calculateEMA data 50)"

definition calculateVolatility :: "tick list \<Rightarrow> nat \<Rightarrow> real" where
  "calculateVolatility data window =
     (if length data < window then 0
      else let ema = calculateEMA data window;
               variance =
                 fold (\<lambda>(idx, t) sum.
                        sum + exp (- 0.1 * (real window - real idx - 1)) * (quote t - ema)\<^sup>2)
                   (enumerate 0 (slice_last window data)) 0 / real window
           in sqrt variance)"

record streak =
  s_length :: nat
  s_type :: "string option"
  s_momentum :: real


text \<open>
  \<open>calculateEntropy\<close>. \<open>digitCounts\<close> is the array of ten counters: a digit outside
  \<open>0..9\<close> (a negative price) increments none of them. The result is meant for \<open>window > 0\<close>
  (the source divides by \<open>window\<close>).
\<close>

definition digitCounts :: "tick list \<Rightarrow> nat list" where
  "digitCounts recent = map (\<lambda>d. length (filter (\<lambda>t. digit t = int d) recent)) [0..<10]"

definition calculateEntropy :: "tick list \<Rightarrow> nat \<Rightarrow> real" where
  "calculateEntropy history window =
     (if length history < window then 0
      else let recent = slice_last window history
           in fold (\<lambda>count entropy.
                     if count > 0
                     then entropy - (real count / real window) * log 2 (real count / real window)
                     else entropy)
                (digitCounts recent) 0 / log 2 10)"

record cycleInfo =
  hasCycle :: bool
  period :: nat
  strength :: real

text \<open>
  \<open>detectCyclicPattern\<close>. A period with no position to compare (\<open>total = 0\<close>) scores
  \<open>NaN\<close> in the source and 0 here; neither is greater than \<open>bestScore\<close>.
\<close>

definition cycleScore :: "int list \<Rightarrow> nat \<Rightarrow> real" where
  "cycleScore sq p =
     (let matches = length (filter (\<lambda>i. sq ! i = sq ! (i - p)) [p..<length sq]);
          total = length [p..<length sq]
      in real matches / real total)"

definition detectCyclicPattern :: "tick list \<Rightarrow> nat \<Rightarrow> cycleInfo" where
  "detectCyclicPattern history maxPeriod =
     (if length history < maxPeriod * 2 then \<lparr>hasCycle = False, period = 0, strength = 0\<rparr>
      else let sq = map (\<lambda>t. js_rem (digit t) 2) (slice_last (maxPeriod * 3) history);
               (bestPeriod, bestScore) =
                 fold (\<lambda>p (bestPeriod, bestScore).
                        let score = cycleScore sq p
                        in if score > bestScore then (p, score) else (bestPeriod, bestScore))
                   [2..<Suc maxPeriod] (0, 0)
           in \<lparr>hasCycle = bestScore > 0.65, period = bestPeriod, strength = bestScore\<rparr>)"

text \<open>
  An exact period-2 alternating sequence of classes, on the values \<^verbatim>\<open>t.digit % 2\<close> the
  detector compares: neighbours differ, and every element equals the one two places back.
\<close>

fun alternating :: "int list \<Rightarrow> bool" where
  "alternating (a # b # c # xs) = (a \<noteq> b \<and> a = c \<and> alternating (b # c # xs))"
| "alternating [a, b] = (a \<noteq> b)"
| "alternating _ = True"

section \<open>Prediction models\<close>




definition volatilityAdjustment :: "real \<Rightarrow> real" where
  "volatilityAdjustment volatility =
     (if volatility > 0.6 then - 0.08 else if volatility < 0.3 then 0.05 else 0)"

text \<open>\<^verbatim>\<open>Math.tanh(trendStrength * 10) * 0.1\<close>; the hyperbolic tangent of \<open>\<plusminus>Infinity\<close> is \<open>\<plusminus>1\<close>.\<close>

definition trendScore :: "quotient \<Rightarrow> jsnum" where
  "trendScore trendStrength =
     (case trendStrength of
        Finite x \<Rightarrow> Num (tanh (x * 10) * 0.1)
      | PosInfinity \<Rightarrow> Num 0.1
      | NegInfinity \<Rightarrow> Num (- 0.1)
      | NotANumber \<Rightarrow> NaN)"

text \<open>The trend entry of \<open>modelProbs\<close> in \<open>analyzeAndTrade\<close>.\<close>

definition trendProbs :: "tick list \<Rightarrow> jsnum \<times> jsnum" where
  "trendProbs recent =
     (let volatility = calculateVolatility recent 50;
          (emaShort, emaLong) = calculateEMAs recent;
          trendStrength = js_div (emaShort - emaLong) emaLong;
          ts = trendScore trendStrength;
          adj = volatilityAdjustment volatility
      in (num_add (num_add (Num 0.5) ts) (Num adj), num_add (num_sub (Num 0.5) ts) (Num adj)))"











text \<open>The sum of a pair of table-valued probabilities.\<close>

definition pair_sum :: "jsnum \<times> jsnum \<Rightarrow> jsnum" where
  "pair_sum p = num_add (fst p) (snd p)"

text \<open>Sixty ticks whose prices alternate between 100.00 and 100.01.\<close>

definition alternatingTicks :: "tick list" where
  "alternatingTicks =
     map (\<lambda>i. \<lparr>epoch = int i, quote = 100 + real (i mod 2) / 100, digit = int (i mod 2)\<rparr>) [0..<60]"

text \<open>
  Twenty ticks in which every digit occurs twice (prices 100.00 to 100.09, twice), and
  twenty ticks at the one price 100.07.
\<close>

definition uniformTicks :: "tick list" where
  "uniformTicks =
     map (\<lambda>i. \<lparr>epoch = int i, quote = 100 + real (i mod 10) / 100, digit = int (i mod 10)\<rparr>) [0..<20]"

definition constantTicks :: "tick list" where
  "constantTicks = map (\<lambda>i. \<lparr>epoch = int i, quote = 100.07, digit = 7\<rparr>) [0..<20]"

text \<open>One term \<open>p log p\<close> of the entropy sum, with the natural logarithm; used in the proofs only.\<close>

definition plogp :: "nat \<Rightarrow> nat \<Rightarrow> real" where
  "plogp window count =
     (if count > 0 then (real count / real window) * ln (real count / real window) else 0)"

section \<open>Learning updates\<close>

text \<open>
  \<open>updateQTable\<close>. Reading \<^verbatim>\<open>this.qTable[state][action]\<close> throws when the shallow table
  has no row \<open>state\<close>; that is the first thing the function does, so nothing is written
  before. The deep table is updated when \<open>deepState\<close> is a non-empty string and names a
  row.
\<close>

definition updateQTable ::
    "config \<Rightarrow> engine \<Rightarrow> string \<Rightarrow> string \<Rightarrow> real \<Rightarrow> string \<Rightarrow> js_error + engine" where
  "updateQTable cfg s state action reward deepState =
     (case map_of (qTable s) state of
        None \<Rightarrow> Inl TypeError
      | Some qrow \<Rightarrow>
          let lr = currentLearningRate s;
              q = lookup_num qrow action;
              qTable' =
                AList.update state
                  (AList.update action (num_add q (num_mul (Num lr) (num_sub (Num reward) q))) qrow)
                  (qTable s);
              deepQTable' =
                (case (if deepState \<noteq> [] then map_of (deepQTable s) deepState else None) of
                   None \<Rightarrow> deepQTable s
                 | Some drow \<Rightarrow>
                     let dq = lookup_num drow action;
                         best = num_max (lookup_num drow ''odd'') (lookup_num drow ''even'')
                     in AList.update deepState
                          (AList.update action
                             (num_add dq
                                (num_mul (Num lr)
                                   (num_sub (num_add (Num reward) (num_mul (Num (discountFactor cfg)) best))
                                      dq)))
                             drow)
                          (deepQTable s))
          in Inr (s\<lparr>qTable := qTable', deepQTable := deepQTable',
                     currentLearningRate := max 0.01 (lr * learningRateDecay cfg)\<rparr>))"

text \<open>One cell of a table: \<open>None\<close> when the row or the key is missing.\<close>

definition cell :: "table \<Rightarrow> string \<Rightarrow> string \<Rightarrow> jsnum option" where
  "cell t k a = (case map_of t k of None \<Rightarrow> None | Some r \<Rightarrow> map_of r a)"

definition updateModelPerformance ::
    "(model \<Rightarrow> perf) \<Rightarrow> (model \<Rightarrow> string) \<Rightarrow> string \<Rightarrow> (model \<Rightarrow> perf)" where
  "updateModelPerformance mp predictions actualOutcome =
     (\<lambda>m. \<lparr>correct = correct (mp m) + (if predictions m = actualOutcome then 1 else 0),
           total = total (mp m) + 1\<rparr>)"

definition storeContext :: "config \<Rightarrow> engine \<Rightarrow> trade \<Rightarrow> string \<Rightarrow> engine" where
  "storeContext cfg s tr result =
     (let pushed = contextMemory s @
            [\<lparr>c_volatility = t_volatility tr, c_entropy = t_entropy tr, c_streak = t_streak tr,
              c_confidence = t_confidence tr, c_prediction = t_prediction tr, c_result = result,
              c_timestamp = t_timestamp tr\<rparr>]
      in s\<lparr>contextMemory :=
             (if length pushed > maxContextMemory cfg
              then slice_last (nat \<lfloor>real (maxContextMemory cfg) * 0.6\<rfloor>) pushed
              else pushed)\<rparr>)"

text \<open>
  \<open>updateMetaQTable\<close>, on the table. \<open>strategy\<close> is whatever string the caller passes: a
  key the row does not have reads \<^verbatim>\<open>undefined\<close>, and the assignment then adds the key.
\<close>

definition updateMetaQTable :: "table \<Rightarrow> string \<Rightarrow> string \<Rightarrow> string \<Rightarrow> real \<Rightarrow> table" where
  "updateMetaQTable metaQ volatilityState entropyState strategy reward =
     (let state = volatilityState @ ''_'' @ entropyState
      in case map_of metaQ state of
           None \<Rightarrow> metaQ
         | Some r \<Rightarrow>
             let alpha = 0.1;
                 gamma = 0.9;
                 currentQ = lookup_num r strategy;
                 maxNextQ = num_max_list (map snd r)
             in AList.update state
                  (AList.update strategy
                     (num_add currentQ
                        (num_mul (Num alpha)
                           (num_sub (num_add (Num reward) (num_mul (Num gamma) maxNextQ)) currentQ)))
                     r)
                  metaQ)"

text \<open>
  \<open>storePattern\<close>. The source compares patterns by their joined strings; on the values
  \<^verbatim>\<open>digit % 2\<close> that is equality of the sequences. The sort is stable, by descending
  \<open>successRate * occurrences\<close>.
\<close>

definition storePattern :: "config \<Rightarrow> engine \<Rightarrow> int list \<Rightarrow> string \<Rightarrow> bool \<Rightarrow> engine" where
  "storePattern cfg s sq outcome wasCorrect =
     (let bump = (\<lambda>p. let occ = occurrences p + 1;
                           suc = successes p + (if wasCorrect then 1 else 0)
                       in p\<lparr>occurrences := occ, successes := suc,
                            successRate := real suc / real occ,
                            nextOutcome := (if wasCorrect then outcome else nextOutcome p)\<rparr>);
          pm = patternMemory s;
          stored =
            (case find (\<lambda>p. sequence p = sq) pm of
               Some e \<Rightarrow> (let i = length (takeWhile (\<lambda>p. sequence p \<noteq> sq) pm) in pm[i := bump e])
             | None \<Rightarrow> pm @ [\<lparr>sequence = sq, nextOutcome = outcome, occurrences = 1,
                               successes = (if wasCorrect then 1 else 0),
                               successRate = (if wasCorrect then 1 else 0)\<rparr>])
      in s\<lparr>patternMemory :=
             (if length stored > maxPatternMemory cfg
              then take (maxPatternMemory cfg)
                     (sort_key (\<lambda>p. - (successRate p * real (occurrences p))) stored)
              else stored)\<rparr>)"

text \<open>
  \<open>processContractResult\<close>. The strategy handed to \<open>updateMetaQTable\<close> is
  \<^verbatim>\<open>lastTrade.mode || 'balanced'\<close>, the operating mode recorded with the trade. Saving to
  storage has no effect on the engine. When \<open>updateQTable\<close> throws, the counters and the
  stored profit have already been written in the source; the model reports the error only.
\<close>

definition processContractResult :: "config \<Rightarrow> engine \<Rightarrow> real \<Rightarrow> js_error + engine" where
  "processContractResult cfg s profit =
     (let reward = (if profit > 0 then 1 else - 1);
          s1 = (if profit > 0
                then s\<lparr>wins := wins s + 1, consecutiveLosses := 0\<rparr>
                else s\<lparr>losses := losses s + 1, consecutiveLosses := consecutiveLosses s + 1\<rparr>)
      in if tradeHistory s1 = [] then Inr s1
         else let lastTrade = (last (tradeHistory s1))\<lparr>t_profit := Some profit\<rparr>;
                  s2 = s1\<lparr>tradeHistory := butlast (tradeHistory s1) @ [lastTrade]\<rparr>
              in case updateQTable cfg s2 (t_state lastTrade) (t_prediction lastTrade) reward
                        (t_deepState lastTrade) of
                   Inl e \<Rightarrow> Inl e
                 | Inr s3 \<Rightarrow>
                     let s4 = s3\<lparr>modelPerformance :=
                                   updateModelPerformance (modelPerformance s3)
                                     (t_modelPredictions lastTrade) (t_prediction lastTrade)\<rparr>;
                         s5 = storeContext cfg s4 lastTrade (if profit > 0 then ''win'' else ''loss'');
                         volState = (if t_volatility lastTrade < 0.3 then ''low''
                                     else if t_volatility lastTrade < 0.7 then ''medium'' else ''high'');
                         entState = (if t_entropy lastTrade < 0.7 then ''low''
                                     else if t_entropy lastTrade < 0.9 then ''medium'' else ''high'');
                         s6 = s5\<lparr>metaQTable :=
                                   updateMetaQTable (metaQTable s5) volState entState
                                     (if t_mode lastTrade = [] then ''balanced'' else t_mode lastTrade)
                                     reward\<rparr>
                     in Inr (if length (tickHistory s6) \<ge> 6
                             then storePattern cfg s6
                                    (map (\<lambda>t. js_rem (digit t) 2) (butlast (slice_last 6 (tickHistory s6))))
                                    (t_prediction lastTrade) (profit > 0)
                             else s6))"

section \<open>Risk sizing\<close>

text \<open>
  \<open>selectStrategy\<close>. \<^verbatim>\<open>Object.keys(strategies).reduce(...)\<close> without an initial value
  throws on a row with no key.
\<close>

definition selectStrategy :: "table \<Rightarrow> real \<Rightarrow> real \<Rightarrow> js_error + string" where
  "selectStrategy metaQ volatility entropy =
     (let volState = (if volatility < 0.3 then ''low'' else if volatility < 0.7 then ''medium'' else ''high'');
          entState = (if entropy < 0.7 then ''low'' else if entropy < 0.9 then ''medium'' else ''high'');
          state = volState @ ''_'' @ entState
      in case map_of metaQ state of
           None \<Rightarrow> Inr ''balanced''
         | Some strategies \<Rightarrow>
             (case map fst strategies of
                [] \<Rightarrow> Inl TypeError
              | k # ks \<Rightarrow>
                  Inr (fold (\<lambda>b a. if num_gt (lookup_num strategies a) (lookup_num strategies b)
                                    then a else b) ks k)))"

definition calculateStake :: "config \<Rightarrow> engine \<Rightarrow> real \<Rightarrow> real \<Rightarrow> real \<Rightarrow> js_error + real" where
  "calculateStake cfg s volatility entropy confidence =
     (case selectStrategy (metaQTable s) volatility entropy of
        Inl e \<Rightarrow> Inl e
      | Inr recommendedStrategy \<Rightarrow>
          let strategyMultiplier =
                (if recommendedStrategy = ''conservative'' then 0.75
                 else if recommendedStrategy = ''aggressive'' \<and> confidence > 0.65 then 1.25
                 else 1.0);
              stake = baseStake cfg * martingaleMultiplier cfg ^ consecutiveLosses s * strategyMultiplier;
              rounded = js_round (stake * 100) / 100;
              maxStake = baseStake cfg * 10
          in Inr (min rounded maxStake))"

section \<open>Ingestion\<close>

text \<open>
  \<open>validateTickData\<close>: whether the tick is valid, and the engine with its data-integrity
  record updated.
\<close>

definition validateTickData :: "engine \<Rightarrow> tick \<Rightarrow> tick option \<Rightarrow> bool \<times> engine" where
  "validateTickData s newTick previousTick =
     (case previousTick of
        None \<Rightarrow> (True, s)
      | Some prev \<Rightarrow>
          let priceChange = \<bar>quote newTick - quote prev\<bar>;
              recentVolatility =
                (if length (tickHistory s) \<ge> 20 then calculateVolatility (tickHistory s) 20 else 1);
              threshold = recentVolatility * 5
          in if priceChange > threshold
             then (False, s\<lparr>recentAnomalies := recentAnomalies s + 1,
                            integrityScore := max 0.5 (integrityScore s * 0.95)\<rparr>)
             else if recentAnomalies s > 0
             then (True, s\<lparr>recentAnomalies := max 0 (recentAnomalies s - 0.1),
                           integrityScore := min 1.0 (integrityScore s + 0.01)\<rparr>)
             else (True, s))"

definition autoTuneLearningParameters :: "config \<Rightarrow> engine \<Rightarrow> engine" where
  "autoTuneLearningParameters cfg s =
     (let totalTrades = wins s + losses s
      in if totalTrades < 10 then s
         else let winRate = real (wins s) / real totalTrades;
                  recentEntropy =
                    (if length (tickHistory s) \<ge> 50 then calculateEntropy (tickHistory s) 50 else 0.8);
                  lr = currentLearningRate s;
                  lr' = (if winRate < 0.45 then min (baseLearningRate cfg * 1.2) (lr * 1.05)
                         else if winRate > 0.55 then max 0.01 (lr * learningRateDecay cfg)
                         else lr);
                  mode = currentMode s;
                  mode' = (if recentEntropy > 0.9 \<and> mode \<noteq> ''exploration'' then ''exploration''
                           else if recentEntropy < 0.7 \<and> mode \<noteq> ''precision'' then ''precision''
                           else if recentEntropy \<ge> 0.7 \<and> recentEntropy \<le> 0.9 \<and> mode \<noteq> ''balanced''
                           then ''balanced''
                           else mode)
              in s\<lparr>currentLearningRate := lr', currentMode := mode'\<rparr>)"

definition shouldEnterCooldown :: "int \<Rightarrow> engine \<Rightarrow> bool \<times> engine" where
  "shouldEnterCooldown now s =
     (if consecutiveLosses s < 3 then (False, s)
      else let recentEntropy =
                 (if length (tickHistory s) \<ge> 50 then calculateEntropy (tickHistory s) 50 else 0.8)
           in if consecutiveLosses s \<ge> 3 \<and> recentEntropy > 0.9
              then (True, s\<lparr>nextTradeTime := now + (5 + int (consecutiveLosses s)) * 2000\<rparr>)
              else (False, s))"

text \<open>The newest buffered tick, \<^verbatim>\<open>null\<close> while the buffer is empty (\<open>previousTick\<close> in \<open>handleTick\<close>).\<close>

definition previousTick :: "engine \<Rightarrow> tick option" where
  "previousTick s = (if length (tickHistory s) > 0 then Some (last (tickHistory s)) else None)"

text \<open>
  A tick message: its epoch, and \<^verbatim>\<open>parseFloat(message.tick.quote)\<close>, \<open>None\<close> when that is
  \<open>NaN\<close>.
\<close>

record tickMessage =
  m_epoch :: int
  m_quote :: "real option"

text \<open>
  \<open>handleTick\<close> at time \<open>now\<close> (\<^verbatim>\<open>Date.now()\<close>): the engine afterwards, and whether
  \<open>analyzeAndTrade\<close> has been scheduled for this tick. \<open>logPerformance\<close> only logs.
\<close>

definition handleTick :: "config \<Rightarrow> int \<Rightarrow> engine \<Rightarrow> tickMessage \<Rightarrow> engine \<times> bool" where
  "handleTick cfg now s msg =
     (case m_quote msg of
        None \<Rightarrow> (s, False)
      | Some q \<Rightarrow>
          let newTick = \<lparr>epoch = m_epoch msg, quote = q, digit = js_rem \<lfloor>q * 100\<rfloor> 10\<rparr>
          in if length (tickHistory s) = 0 \<or> epoch newTick > epoch (last (tickHistory s))
             then let (isValid, s1) = validateTickData s newTick (previousTick s);
                      pushed = tickHistory s1 @ [newTick];
                      s2 = s1\<lparr>tickHistory :=
                                 (if length pushed > maxHistory cfg then tl pushed else pushed)\<rparr>;
                      s3 = (if length (tickHistory s2) mod 50 = 0
                            then autoTuneLearningParameters cfg s2 else s2);
                      s4 = (if now - lastPerformanceLog s3 > 300000
                            then s3\<lparr>lastPerformanceLog := now\<rparr> else s3)
                  in if isBotRunning s4 \<and> currentContractId s4 = None \<and> now \<ge> nextTradeTime s4
                        \<and> \<not> isPending s4 \<and> isValid
                     then let (cooldown, s5) = shouldEnterCooldown now s4 in (s5, \<not> cooldown)
                     else (s4, False)
             else (s, False))"

text \<open>
  The test of \<open>validateTickData\<close> for an anomaly, on the price \<open>q\<close> of an incoming tick:
  there is a previous tick, and the price moved by more than five times the recent
  volatility (1 while fewer than 20 ticks are buffered).
\<close>

definition anomalous :: "engine \<Rightarrow> real \<Rightarrow> bool" where
  "anomalous s q =
     (tickHistory s \<noteq> [] \<and>
      \<bar>q - quote (last (tickHistory s))\<bar>
        > (if length (tickHistory s) \<ge> 20 then calculateVolatility (tickHistory s) 20 else 1) * 5)"

text \<open>
  What ingestion keeps true of the data-integrity record, from the constructor on: the
  score lies in \<open>[0.5, 1]\<close>, and what it is short of 1 is covered by the anomaly counter
  (an anomaly takes at most 0.05 from the score and adds 1 to the counter; a clean tick
  gives 0.01 back and takes 0.1 from the counter).
\<close>

definition integrity_inv :: "engine \<Rightarrow> bool" where
  "integrity_inv s =
     (0.5 \<le> integrityScore s \<and> integrityScore s \<le> 1 \<and> 0 \<le> recentAnomalies s \<and>
      1 - integrityScore s \<le> 0.05 * recentAnomalies s \<and>
      (tickHistory s \<noteq> [] \<or> integrityScore s = 1))"

text \<open>The engine states that the constructor and any run of tick messages lead to.\<close>

inductive ingested :: "config \<Rightarrow> engine \<Rightarrow> bool" for cfg :: config where
  constructed: "ingested cfg (initialEngine cfg now)"
| tick: "ingested cfg s \<Longrightarrow> ingested cfg (fst (handleTick cfg now s msg))"

section \<open>Concrete inputs\<close>

text \<open>A configuration to evaluate the engine on; the values are examples.\<close>

definition exampleConfig :: config where
  "exampleConfig =
     \<lparr>baseStake = 1, martingaleMultiplier = 2, baseLearningRate = 0.1,
      learningRateDecay = 0.995, discountFactor = 0.9,
      maxHistory = 1000, maxContextMemory = 100, maxPatternMemory = 50\<rparr>"

text \<open>The engine after the constructor and one buffered tick at price 100.00, epoch 5.\<close>

definition oneTickEngine :: engine where
  "oneTickEngine =
     (initialEngine exampleConfig 0)\<lparr>tickHistory := [\<lparr>epoch = 5, quote = 100, digit = 0\<rparr>]\<rparr>"

text \<open>The same engine, running, after ten losses in a row.\<close>

definition losingEngine :: engine where
  "losingEngine = oneTickEngine\<lparr>isBotRunning := True, losses := 10, consecutiveLosses := 10\<rparr>"





text \<open>
  A trade decided while the engine was in exploration mode (low volatility, high entropy),
  and the engine that holds it as its last trade: ten trades done, sixty ticks buffered.
\<close>

definition explorationTrade :: trade where
  "explorationTrade =
     \<lparr>t_state = ''odd'', t_deepState = ''low_neutral_short'', t_confidence = 0.6,
      t_smoothedConfidence = 0.6, t_entropy = 0.95, t_volatility = 0.1, t_streak = 1,
      t_modelPredictions = (\<lambda>m. ''odd''), t_weights = (\<lambda>m. 1 / 8),
      t_consensusAgreement = 1, t_prediction = ''odd'', t_stake = 1, t_timestamp = 1000,
      t_consecutiveLosses = 0, t_mode = ''exploration'', t_healthScore = 1,
      t_dataIntegrity = 1, t_profit = None\<rparr>"

definition explorationEngine :: engine where
  "explorationEngine =
     (initialEngine exampleConfig 0)
       \<lparr>isBotRunning := True, tickHistory := alternatingTicks, tradeHistory := [explorationTrade],
        wins := 6, losses := 4, currentMode := ''exploration''\<rparr>"




section \<open>Properties of the adaptive weights\<close>

lemma accuracy_nonneg: "0 \<le> accuracy p"
  by (simp add: accuracy_def)

lemma squaredAccuracy_nonneg: "0 \<le> squaredAccuracy mp m"
  by (simp add: squaredAccuracy_def)

lemma totalAccuracy_nonneg: "0 \<le> totalAccuracy mp"
  by (simp add: totalAccuracy_def models_def squaredAccuracy_nonneg)

lemma normalizedWeight_nonneg: "0 \<le> normalizedWeight mp m"
  by (simp add: normalizedWeight_def squaredAccuracy_nonneg totalAccuracy_nonneg)

lemma sum_list_divide: "sum_list (map (\<lambda>x. f x / (c::real)) xs) = sum_list (map f xs) / c"
  by (induction xs) (simp_all add: add_divide_distrib)

lemma normalizedWeight_sum: "sum_list (map (normalizedWeight mp) models) = 1"
proof (cases "totalAccuracy mp > 0")
  case True
  then have "sum_list (map (normalizedWeight mp) models) = totalAccuracy mp / totalAccuracy mp"
    unfolding normalizedWeight_def
    by (simp add: sum_list_divide totalAccuracy_def)
  with True show ?thesis by simp
next
  case False
  then show ?thesis
    by (simp add: normalizedWeight_def models_def)
qed

lemma flooredWeight_ge: "0.05 \<le> flooredWeight mp m"
  by (simp add: flooredWeight_def)

lemma floored_sum_bound:
  fixes xs :: "real list"
  assumes "\<forall>x\<in>set xs. 0 \<le> x" "0 \<le> c"
  shows "sum_list (map (max c) xs) \<le> sum_list xs + c * real (length (filter (\<lambda>x. x < c) xs))"
  using assms by (induction xs) (auto simp: algebra_simps)

lemma all_small_sum:
  fixes xs :: "real list"
  assumes "\<forall>x\<in>set xs. x < c" "xs \<noteq> []"
  shows "sum_list xs < c * real (length xs)"
  using assms
proof (induction xs)
  case Nil then show ?case by simp
next
  case (Cons a xs)
  show ?case
  proof (cases "xs = []")
    case True with Cons.prems show ?thesis by simp
  next
    case False
    with Cons have "sum_list xs < c * real (length xs)" by simp
    moreover have "a < c" using Cons.prems by simp
    ultimately show ?thesis by (simp add: algebra_simps)
  qed
qed

lemma flooredTotal_ge: "0.4 \<le> flooredTotal mp"
  using flooredWeight_ge[of mp M_stat] flooredWeight_ge[of mp M_markov]
    flooredWeight_ge[of mp M_trend] flooredWeight_ge[of mp M_qlearning]
    flooredWeight_ge[of mp M_streak] flooredWeight_ge[of mp M_pattern]
    flooredWeight_ge[of mp M_entropy] flooredWeight_ge[of mp M_cycle]
  by (simp add: flooredTotal_def models_def)

lemma flooredTotal_le: "flooredTotal mp \<le> 1.35"
proof -
  let ?xs = "map (normalizedWeight mp) models"
  let ?k = "length (filter (\<lambda>x. x < 0.05) ?xs)"
  have nonneg: "\<forall>x\<in>set ?xs. 0 \<le> x"
    by (auto simp: normalizedWeight_nonneg)
  have len: "length ?xs = 8"
    by (simp add: models_def)
  have "flooredTotal mp = sum_list (map (max 0.05) ?xs)"
    by (simp add: flooredTotal_def flooredWeight_def[abs_def] comp_def)
  also have "\<dots> \<le> sum_list ?xs + 0.05 * real ?k"
    using floored_sum_bound[OF nonneg, of "0.05"] by simp
  also have "\<dots> = 1 + 0.05 * real ?k"
    by (simp only: normalizedWeight_sum)
  finally have bound: "flooredTotal mp \<le> 1 + 0.05 * real ?k" .
  have "?k \<le> 7"
  proof (rule ccontr)
    assume "\<not> ?k \<le> 7"
    moreover have "?k \<le> length ?xs" by (rule length_filter_le)
    ultimately have "?k = length ?xs" using len by linarith
    then have "\<forall>x\<in>set ?xs. x < 0.05"
      by (metis (mono_tags, lifting) filter_id_conv length_filter_less less_irrefl)
    moreover have "?xs \<noteq> []" by (simp add: models_def)
    ultimately have "sum_list ?xs < 0.05 * real (length ?xs)"
      by (rule all_small_sum)
    then show False
      by (simp only: normalizedWeight_sum len) simp
  qed
  then have "real ?k \<le> 7" by simp
  with bound show ?thesis by simp
qed

lemma getAdaptiveWeights_Some:
  "getAdaptiveWeights mp = Some (\<lambda>m. flooredWeight mp m / flooredTotal mp)"
  using flooredTotal_ge[of mp] by (simp add: getAdaptiveWeights_def)

text \<open>
  \<^bold>\<open>C2\<close>, as amended. For every state of the per-model counters, \<open>getAdaptiveWeights\<close>
  returns weights that sum to 1, and every weight is at least \<open>0.05 / 1.35 = 1 / 27\<close>:
  the floor of 0.05 is applied before the last normalisation, which divides by a sum
  between 1 and 1.35.
\<close>

theorem adaptive_weights_sum_and_floor:
  "\<exists>w. getAdaptiveWeights mp = Some w \<and> sum_list (map w models) = 1 \<and> (\<forall>m. 1 / 27 \<le> w m)"
proof -
  let ?w = "\<lambda>m. flooredWeight mp m / flooredTotal mp"
  have pos: "0 < flooredTotal mp" using flooredTotal_ge[of mp] by linarith
  have "sum_list (map ?w models) = flooredTotal mp / flooredTotal mp"
    by (simp add: sum_list_divide flooredTotal_def)
  then have s: "sum_list (map ?w models) = 1" using pos by simp
  have "1 / 27 \<le> ?w m" for m
  proof -
    have "flooredTotal mp \<le> 27 * flooredWeight mp m"
      using flooredTotal_le[of mp] flooredWeight_ge[of mp m] by linarith
    then show ?thesis using pos by (simp add: pos_le_divide_eq)
  qed
  with s getAdaptiveWeights_Some show ?thesis by blast
qed

text \<open>
  The floor of 0.05 itself does not survive the last normalisation: with one model always
  right and seven always wrong, each of the seven ends at \<open>0.05 / 1.35\<close>.
\<close>

lemma skewed_sq:
  "squaredAccuracy skewedPerformance m = (if m = M_stat then 1 else 0)"
  by (simp add: squaredAccuracy_def accuracy_def skewedPerformance_def)

lemma skewed_total: "totalAccuracy skewedPerformance = 1"
  by (simp add: totalAccuracy_def models_def skewed_sq)

lemma skewed_floored:
  "flooredWeight skewedPerformance m = (if m = M_stat then 1 else 0.05)"
  by (simp add: flooredWeight_def normalizedWeight_def skewed_total skewed_sq)

lemma skewed_flooredTotal: "flooredTotal skewedPerformance = 1.35"
  by (simp add: flooredTotal_def models_def skewed_floored)

theorem adaptive_weight_below_floor:
  "getAdaptiveWeights skewedPerformance \<noteq> None \<and>
   the (getAdaptiveWeights skewedPerformance) M_markov = 1 / 27 \<and>
   \<not> 0.05 \<le> the (getAdaptiveWeights skewedPerformance) M_markov"
  by (simp add: getAdaptiveWeights_def skewed_flooredTotal skewed_floored)

text \<open>
  \<^bold>\<open>C10\<close>. \<open>getAdaptiveWeights\<close> returns a weight vector for every counter state: the
  divisor of its one unguarded division is never zero. When every model has
  \<open>total > 0\<close> and \<open>correct = 0\<close>, the sum of the squared accuracies is 0, the guard
  \<^verbatim>\<open>totalAccuracy > 0\<close> sends every model to the uniform weight \<open>1 / 8\<close> before the
  floor, and the weights returned are \<open>1 / 8\<close> each.
\<close>

theorem adaptive_weights_total_uniform:
  "getAdaptiveWeights mp \<noteq> None \<and> flooredTotal mp \<noteq> 0 \<and>
   ((\<forall>m. 0 < total (mp m) \<and> correct (mp m) = 0) \<longrightarrow>
      totalAccuracy mp = 0 \<and> (\<forall>m. normalizedWeight mp m = 1 / 8) \<and>
      getAdaptiveWeights mp = Some (\<lambda>m. 1 / 8))"
proof -
  have nz: "flooredTotal mp \<noteq> 0"
    using flooredTotal_ge[of mp] by auto
  have "totalAccuracy mp = 0 \<and> (\<forall>m. normalizedWeight mp m = 1 / 8) \<and>
        getAdaptiveWeights mp = Some (\<lambda>m. 1 / 8)"
    if a: "\<forall>m. 0 < total (mp m) \<and> correct (mp m) = 0"
  proof -
    have sq: "squaredAccuracy mp m = 0" for m
      using a by (simp add: squaredAccuracy_def accuracy_def)
    have t: "totalAccuracy mp = 0"
      by (simp add: totalAccuracy_def models_def sq)
    have n: "normalizedWeight mp m = 1 / 8" for m
      by (simp add: normalizedWeight_def t models_def)
    have f: "flooredWeight mp m = 1 / 8" for m
      by (simp add: flooredWeight_def n)
    have ft: "flooredTotal mp = 1"
      by (simp add: flooredTotal_def models_def f)
    show ?thesis
      by (simp add: t n ft f getAdaptiveWeights_def)
  qed
  with nz show ?thesis
    by (simp add: getAdaptiveWeights_def)
qed

theorem adaptive_weights_total_uniform_witness:
  "getAdaptiveWeights allWrongPerformance \<noteq> None \<and>
   totalAccuracy allWrongPerformance = 0 \<and>
   normalizedWeight allWrongPerformance M_cycle = 1 / 8 \<and>
   getAdaptiveWeights allWrongPerformance = Some (\<lambda>m. 1 / 8)"
  using adaptive_weights_total_uniform[of allWrongPerformance]
  by (simp add: allWrongPerformance_def)

section \<open>Properties of the cyclic detector\<close>

lemma alternating_tl: "alternating (x # xs) \<Longrightarrow> alternating xs"
  by (induction xs arbitrary: x rule: alternating.induct) auto

lemma alternating_drop: "alternating xs \<Longrightarrow> alternating (drop n xs)"
proof (induction n arbitrary: xs)
  case 0 then show ?case by simp
next
  case (Suc n)
  show ?case
  proof (cases xs)
    case Nil then show ?thesis by simp
  next
    case (Cons x ys)
    with Suc.prems have "alternating ys" using alternating_tl by blast
    with Suc.IH Cons show ?thesis by simp
  qed
qed

lemma alternating_nth: "alternating xs \<Longrightarrow> i + 2 < length xs \<Longrightarrow> xs ! (i + 2) = xs ! i"
proof (induction i arbitrary: xs)
  case 0
  then show ?case by (cases xs rule: alternating.cases) auto
next
  case (Suc i)
  then obtain x ys where xs: "xs = x # ys" by (cases xs) auto
  with Suc.prems have "alternating ys" "i + 2 < length ys"
    using alternating_tl by auto
  with Suc.IH have "ys ! (i + 2) = ys ! i" by blast
  with xs show ?case by simp
qed

lemma cycleScore_le_one: "cycleScore sq p \<le> 1"
proof -
  have "length (filter (\<lambda>i. sq ! i = sq ! (i - p)) [p..<length sq]) \<le> length [p..<length sq]"
    by (rule length_filter_le)
  then show ?thesis
    unfolding cycleScore_def Let_def
    by (cases "length [p..<length sq] = 0") (simp_all add: divide_le_eq_1)
qed

lemma cycleScore_two:
  assumes "alternating sq" "2 < length sq"
  shows "cycleScore sq 2 = 1"
proof -
  have "filter (\<lambda>i. sq ! i = sq ! (i - 2)) [2..<length sq] = [2..<length sq]"
  proof (rule filter_True, clarify)
    fix i assume "i \<in> set [2..<length sq]"
    then obtain j where j: "i = j + 2" "j + 2 < length sq"
      by (auto simp: le_iff_add add.commute)
    from alternating_nth[OF assms(1) j(2)] j(1) show "sq ! i = sq ! (i - 2)" by simp
  qed
  then show ?thesis using assms(2) by (simp add: cycleScore_def)
qed

lemma best_stays:
  "fold (\<lambda>p (bestPeriod, bestScore).
           let score = cycleScore sq p
           in if score > bestScore then (p, score) else (bestPeriod, bestScore)) ps (bp, 1) = (bp, 1)"
  using cycleScore_le_one[of sq]
  by (induction ps) (auto simp: Let_def not_less[symmetric] simp del: not_less)

lemma detect_alternating:
  assumes "2 \<le> maxPeriod"
    and "maxPeriod * 2 \<le> length history"
    and "alternating (map (\<lambda>t. js_rem (digit t) 2) history)"
  shows "detectCyclicPattern history maxPeriod = \<lparr>hasCycle = True, period = 2, strength = 1\<rparr>"
proof -
  let ?sq = "map (\<lambda>t. js_rem (digit t) 2) (slice_last (maxPeriod * 3) history)"
  have len: "2 < length ?sq"
    using assms(1,2) by (simp add: slice_last_def)
  have "?sq = drop (length history - maxPeriod * 3) (map (\<lambda>t. js_rem (digit t) 2) history)"
    using assms(1) by (simp add: slice_last_def drop_map)
  with assms(3) have alt: "alternating ?sq"
    by (simp add: alternating_drop)
  have two: "cycleScore ?sq 2 = 1"
    using cycleScore_two[OF alt len] .
  have upt: "[2..<Suc maxPeriod] = 2 # [3..<Suc maxPeriod]"
    using assms(1) by (simp add: upt_conv_Cons)
  have "fold (\<lambda>p (bestPeriod, bestScore).
           let score = cycleScore ?sq p
           in if score > bestScore then (p, score) else (bestPeriod, bestScore))
          [2..<Suc maxPeriod] (0, 0)
        = (2, 1)"
    unfolding upt by (simp add: two best_stays)
  moreover have "\<not> length history < maxPeriod * 2" using assms(2) by simp
  ultimately show ?thesis
    unfolding detectCyclicPattern_def by (simp add: Let_def)
qed

text \<open>
  \<^bold>\<open>C7\<close>. On a history of at least 60 ticks whose classes alternate with period 2, the
  cyclic detector called with \<open>maxPeriod = 20\<close> returns period 2, strength 1 and
  \<open>hasCycle = true\<close>: period 2 is tried first and scores 1, and no later period can score
  more.
\<close>

theorem cyclic_detector_period_two:
  assumes "60 \<le> length history"
    and "alternating (map (\<lambda>t. js_rem (digit t) 2) history)"
  shows "detectCyclicPattern history 20 = \<lparr>hasCycle = True, period = 2, strength = 1\<rparr>"
  using assms by (intro detect_alternating) simp_all

theorem cyclic_detector_period_two_witness:
  "60 \<le> length alternatingTicks \<and>
   alternating (map (\<lambda>t. js_rem (digit t) 2) alternatingTicks) \<and>
   detectCyclicPattern alternatingTicks 20 = \<lparr>hasCycle = True, period = 2, strength = 1\<rparr>"
proof -
  have l: "60 \<le> length alternatingTicks" by (simp add: alternatingTicks_def)
  have a: "alternating (map (\<lambda>t. js_rem (digit t) 2) alternatingTicks)"
    unfolding alternatingTicks_def by code_simp
  from l a cyclic_detector_period_two[OF l a] show ?thesis by simp
qed

section \<open>Properties of the entropy extractor\<close>

lemma fold_entropy:
  "fold (\<lambda>count entropy.
           if count > 0
           then entropy - (real count / real window) * log 2 (real count / real window)
           else entropy) cs acc
   = acc - sum_list (map (plogp window) cs) / ln 2"
  by (induction cs arbitrary: acc) (simp_all add: plogp_def log_def add_divide_distrib)

lemma calculateEntropy_ln:
  assumes "window \<le> length history"
  shows "calculateEntropy history window
         = - sum_list (map (plogp window) (digitCounts (slice_last window history))) / ln 10"
proof -
  have "ln (2::real) \<noteq> 0" by simp
  then show ?thesis
    using assms by (simp add: calculateEntropy_def fold_entropy log_def Let_def)
qed

lemma length_slice_last:
  "0 < n \<Longrightarrow> n \<le> length xs \<Longrightarrow> length (slice_last n xs) = n"
  by (simp add: slice_last_def)

lemma upt_ten: "[0..<10] = [0, 1, 2, 3, 4, 5, 6, 7, 8, 9]"
  by code_simp

lemma digitCounts_sum: "sum_list (digitCounts recent) \<le> length recent"
proof (induction recent)
  case Nil
  then show ?case by (simp add: digitCounts_def)
next
  case (Cons t ts)
  have "sum_list (digitCounts (t # ts)) \<le> sum_list (digitCounts ts) + 1"
    by (simp add: digitCounts_def upt_ten)
  with Cons show ?case by simp
qed

lemma digitCounts_le: "c \<in> set (digitCounts recent) \<Longrightarrow> c \<le> length recent"
  unfolding digitCounts_def by auto

lemma length_digitCounts: "length (digitCounts recent) = 10"
  by (simp add: digitCounts_def)

lemma plogp_nonpos: "c \<le> w \<Longrightarrow> plogp w c \<le> 0"
proof (cases "c > 0")
  case False then show ?thesis by (simp add: plogp_def)
next
  case True
  assume "c \<le> w"
  with True have "0 < real c / real w" "real c / real w \<le> 1" by simp_all
  then have "ln (real c / real w) \<le> 0" by simp
  with \<open>0 < real c / real w\<close> have "real c / real w * ln (real c / real w) \<le> 0"
    by (intro mult_nonneg_nonpos) simp_all
  with True show ?thesis
    by (simp only: plogp_def if_True)
qed

lemma plogp_lower:
  assumes "0 < w"
  shows "- plogp w c \<le> 1 / 10 + (ln 10 - 1) / real w * real c"
proof (cases "c > 0")
  case False
  then show ?thesis by (simp add: plogp_def)
next
  case True
  define p where "p = real c / real w"
  have p: "0 < p" using True assms by (simp add: p_def)
  have "ln (1 / (10 * p)) \<le> 1 / (10 * p) - 1"
    using p by (intro ln_le_minus_one) simp
  then have "- ln p - ln 10 \<le> 1 / (10 * p) - 1"
    using p by (simp add: ln_div ln_mult)
  then have "p * (- ln p - ln 10) \<le> p * (1 / (10 * p) - 1)"
    using p by (intro mult_left_mono) simp_all
  also have "\<dots> = 1 / 10 - p" using p by (simp add: field_simps)
  finally have "- (p * ln p) \<le> 1 / 10 + (ln 10 - 1) * p"
    by (simp add: algebra_simps)
  then show ?thesis
    using True by (simp add: plogp_def p_def)
qed

lemma sum_list_affine:
  "sum_list (map (\<lambda>c. a + b * real c) cs) = a * real (length cs) + b * real (sum_list cs)"
  by (induction cs) (simp_all add: algebra_simps)

lemma sum_list_neg: "sum_list (map (\<lambda>c. - f c) cs) = - (sum_list (map f cs) :: real)"
  by (induction cs) simp_all

lemma ln_10_ge_1: "1 \<le> ln (10::real)"
proof -
  have "exp 1 \<le> (10::real)" using exp_le by linarith
  then have "ln (exp 1) \<le> ln (10::real)" by (subst ln_le_cancel_iff) simp_all
  then show ?thesis by simp
qed

lemma entropy_range:
  assumes "0 < window"
  shows "0 \<le> calculateEntropy history window \<and> calculateEntropy history window \<le> 1"
proof (cases "length history < window")
  case True
  then show ?thesis by (simp add: calculateEntropy_def)
next
  case False
  then have le: "window \<le> length history" by simp
  let ?recent = "slice_last window history"
  let ?cs = "digitCounts ?recent"
  let ?S = "sum_list (map (plogp window) ?cs)"
  have len: "length ?recent = window" using assms le by (rule length_slice_last)
  have E: "calculateEntropy history window = - ?S / ln 10"
    using le by (rule calculateEntropy_ln)
  have ln10: "0 < ln (10::real)" by simp
  have "sum_list (map (plogp window) ?cs) \<le> sum_list (map (\<lambda>c. 0) ?cs)"
    using digitCounts_le[of _ ?recent] len
    by (intro sum_list_mono) (simp add: plogp_nonpos)
  then have lower: "0 \<le> - ?S" by simp
  have "sum_list (map (\<lambda>c. - plogp window c) ?cs)
        \<le> sum_list (map (\<lambda>c. 1 / 10 + (ln 10 - 1) / real window * real c) ?cs)"
    by (intro sum_list_mono plogp_lower assms)
  also have "\<dots> = 1 + (ln 10 - 1) / real window * real (sum_list ?cs)"
    by (subst sum_list_affine) (simp add: length_digitCounts)
  also have "\<dots> \<le> 1 + (ln 10 - 1) / real window * real window"
  proof -
    have "real (sum_list ?cs) \<le> real window"
      using digitCounts_sum[of ?recent] len by simp
    moreover have "0 \<le> (ln 10 - 1) / real window"
      using ln_10_ge_1 assms by simp
    ultimately show ?thesis by (simp add: mult_left_mono del: times_divide_eq_left)
  qed
  also have "\<dots> = ln 10" using assms by simp
  finally have "sum_list (map (\<lambda>c. - plogp window c) ?cs) \<le> ln 10" .
  moreover have "sum_list (map (\<lambda>c. - plogp window c) ?cs) = - ?S"
    by (rule sum_list_neg)
  ultimately have upper: "- ?S \<le> ln 10" by simp
  from lower ln10 have "0 \<le> - ?S / ln 10"
    by (intro divide_nonneg_pos)
  moreover from upper ln10 have "- ?S / ln 10 \<le> ln 10 / ln 10"
    by (intro divide_right_mono) simp_all
  ultimately show ?thesis
    unfolding E by simp
qed

lemma entropy_short: "length history < window \<Longrightarrow> calculateEntropy history window = 0"
  by (simp add: calculateEntropy_def)

lemma entropy_uniform:
  assumes "0 < window" "window \<le> length history"
    and "\<forall>c\<in>set (digitCounts (slice_last window history)). 10 * c = window"
  shows "calculateEntropy history window = 1"
proof -
  let ?cs = "digitCounts (slice_last window history)"
  have "plogp window c = - ln 10 / 10" if "c \<in> set ?cs" for c
  proof -
    from that assms(3) have c: "10 * c = window" by blast
    with assms(1) have "0 < c" by auto
    moreover from c have "real window = 10 * real c" by (metis of_nat_mult of_nat_numeral)
    ultimately show ?thesis
      by (simp add: plogp_def ln_div)
  qed
  then have "sum_list (map (plogp window) ?cs) = sum_list (map (\<lambda>c. - ln 10 / 10) ?cs)"
    by (intro arg_cong[where f = sum_list] map_cong) auto
  also have "\<dots> = - ln 10"
    by (simp add: sum_list_triv length_digitCounts)
  finally have "sum_list (map (plogp window) ?cs) = - ln 10" .
  then show ?thesis
    using calculateEntropy_ln[OF assms(2)] by simp
qed

lemma entropy_constant:
  assumes "window \<le> length history"
    and "\<forall>t\<in>set (slice_last window history). digit t = d"
  shows "calculateEntropy history window = 0"
proof -
  let ?recent = "slice_last window history"
  let ?cs = "digitCounts ?recent"
  have len: "window = 0 \<or> length ?recent = window"
    using assms(1) by (auto simp: slice_last_def)
  have "plogp window c = 0" if "c \<in> set ?cs" for c
  proof -
    from that obtain d' where c: "c = length (filter (\<lambda>t. digit t = int d') ?recent)"
      unfolding digitCounts_def by auto
    have "c = 0 \<or> c = length ?recent"
    proof (cases "d = int d'")
      case True
      with assms(2) have "filter (\<lambda>t. digit t = int d') ?recent = ?recent"
        by (intro filter_True) simp
      with c show ?thesis by simp
    next
      case False
      with assms(2) have "filter (\<lambda>t. digit t = int d') ?recent = []"
        by (intro filter_False) auto
      with c show ?thesis by simp
    qed
    with len show ?thesis
      by (auto simp: plogp_def)
  qed
  then have "sum_list (map (plogp window) ?cs) = sum_list (map (\<lambda>c. 0) ?cs)"
    by (intro arg_cong[where f = sum_list] map_cong) auto
  then have "sum_list (map (plogp window) ?cs) = 0"
    by simp
  then show ?thesis
    using calculateEntropy_ln[OF assms(1)] by simp
qed

text \<open>
  \<^bold>\<open>C6\<close>. For every history and every window of at least one observation, the entropy
  extractor returns a value in \<open>[0, 1]\<close>; it returns 0 when the history is shorter than the
  window, exactly 1 when each of the ten digits fills a tenth of the window, and exactly 0
  when the window holds one digit only.
\<close>

theorem entropy_range_and_extremes:
  assumes "0 < window"
  shows "0 \<le> calculateEntropy history window \<and> calculateEntropy history window \<le> 1 \<and>
         (length history < window \<longrightarrow> calculateEntropy history window = 0) \<and>
         (window \<le> length history \<and>
          (\<forall>c\<in>set (digitCounts (slice_last window history)). 10 * c = window)
            \<longrightarrow> calculateEntropy history window = 1) \<and>
         (window \<le> length history \<and> (\<forall>t\<in>set (slice_last window history). digit t = d)
            \<longrightarrow> calculateEntropy history window = 0)"
  using entropy_range[OF assms, of history] entropy_uniform[OF assms, of history]
    entropy_constant[of window history d] entropy_short[of history window]
  by blast

theorem entropy_range_and_extremes_witness:
  "calculateEntropy uniformTicks 20 = 1 \<and>
   calculateEntropy constantTicks 20 = 0 \<and>
   calculateEntropy (take 5 uniformTicks) 20 = 0 \<and>
   0 \<le> calculateEntropy uniformTicks 20 \<and> calculateEntropy uniformTicks 20 \<le> 1"
proof -
  have w: "(0::nat) < 20" by simp
  have lu: "20 \<le> length uniformTicks" by (simp add: uniformTicks_def)
  have lc: "20 \<le> length constantTicks" by (simp add: constantTicks_def)
  have ls: "length (take 5 uniformTicks) < 20" by (simp add: uniformTicks_def)
  have u: "\<forall>c\<in>set (digitCounts (slice_last 20 uniformTicks)). 10 * c = 20"
    unfolding uniformTicks_def by code_simp
  have c: "\<forall>t\<in>set (slice_last 20 constantTicks). digit t = 7"
    unfolding constantTicks_def by code_simp
  from entropy_range_and_extremes[OF w, of uniformTicks 7] lu u
  have 1: "calculateEntropy uniformTicks 20 = 1" by blast
  from entropy_range_and_extremes[OF w, of constantTicks 7] lc c
  have 2: "calculateEntropy constantTicks 20 = 0" by blast
  from entropy_range_and_extremes[OF w, of "take 5 uniformTicks" 7] ls
  have 3: "calculateEntropy (take 5 uniformTicks) 20 = 0" by blast
  from 1 2 3 show ?thesis by simp
qed

section \<open>Properties of the Q-table update\<close>

lemma cell_update_other:
  assumes "(k, a) \<noteq> (k0, a0)" "map_of t k0 = Some r"
  shows "cell (AList.update k0 (AList.update a0 v r) t) k a = cell t k a"
  using assms by (auto simp: cell_def AList.update_conv')

lemma keys_update_present:
  "map_of t k = Some r \<Longrightarrow> map fst (AList.update k r' t) = map fst t"
  by (auto simp: AList.update_keys dest: map_of_SomeD intro: rev_image_eqI)

text \<open>
  \<^bold>\<open>C9\<close>. \<open>updateQTable\<close> either throws before it writes anything (the shallow table
  has no row for \<open>state\<close>), or returns an engine in which every shallow cell other than
  \<open>Q[state][action]\<close> and every deep cell other than \<open>DeepQ[deepState][action]\<close> is what
  it was, no row has been added, pattern memory, context memory and the meta table are
  unchanged, and nothing but the two tables and the learning rate differs from the engine
  before.
\<close>

theorem updateQTable_frame:
  "(map_of (qTable s) state = None \<and>
    updateQTable cfg s state action reward deepState = Inl TypeError)
   \<or>
   (\<exists>s'. updateQTable cfg s state action reward deepState = Inr s' \<and>
      (\<forall>k a. (k, a) \<noteq> (state, action) \<longrightarrow> cell (qTable s') k a = cell (qTable s) k a) \<and>
      (\<forall>k a. (k, a) \<noteq> (deepState, action) \<longrightarrow> cell (deepQTable s') k a = cell (deepQTable s) k a) \<and>
      map fst (qTable s') = map fst (qTable s) \<and>
      map fst (deepQTable s') = map fst (deepQTable s) \<and>
      patternMemory s' = patternMemory s \<and> contextMemory s' = contextMemory s \<and>
      metaQTable s' = metaQTable s \<and>
      s' = s\<lparr>qTable := qTable s', deepQTable := deepQTable s',
             currentLearningRate := max 0.01 (currentLearningRate s * learningRateDecay cfg)\<rparr>)"
proof (cases "map_of (qTable s) state")
  case None
  then show ?thesis by (simp add: updateQTable_def)
next
  case (Some qrow)
  show ?thesis
  proof (cases "deepState \<noteq> [] \<and> map_of (deepQTable s) deepState \<noteq> None")
    case True
    then obtain drow where d: "deepState \<noteq> []" "map_of (deepQTable s) deepState = Some drow"
      by auto
    show ?thesis
      using Some d
      by (simp add: updateQTable_def Let_def cell_update_other keys_update_present)
  next
    case False
    then have "(if deepState \<noteq> [] then map_of (deepQTable s) deepState else None) = None"
      by auto
    then show ?thesis
      using Some
      by (simp add: updateQTable_def Let_def cell_update_other keys_update_present)
  qed
qed

theorem updateQTable_frame_witness:
  "\<exists>s'. updateQTable exampleConfig oneTickEngine ''odd'' ''odd'' 1 ''low_neutral_short'' = Inr s' \<and>
      cell (qTable s') ''odd'' ''even'' = Some (Num 0.5) \<and>
      cell (qTable s') ''even'' ''odd'' = Some (Num 0.5) \<and>
      cell (deepQTable s') ''low_neutral_short'' ''even'' = Some (Num 0.5) \<and>
      cell (deepQTable s') ''high_bullish_long'' ''odd'' = Some (Num 0.5) \<and>
      metaQTable s' = getDefaultMetaQTable \<and> patternMemory s' = [] \<and> contextMemory s' = []"
proof -
  have q: "map_of (qTable oneTickEngine) ''odd'' \<noteq> None"
    by (simp add: oneTickEngine_def initialEngine_def getDefaultQTable_def)
  have c: "cell (qTable oneTickEngine) ''odd'' ''even'' = Some (Num 0.5)"
    "cell (qTable oneTickEngine) ''even'' ''odd'' = Some (Num 0.5)"
    "cell (deepQTable oneTickEngine) ''low_neutral_short'' ''even'' = Some (Num 0.5)"
    "cell (deepQTable oneTickEngine) ''high_bullish_long'' ''odd'' = Some (Num 0.5)"
    by (simp_all add: cell_def oneTickEngine_def initialEngine_def getDefaultQTable_def
        getDefaultDeepQTable_def)
  have m: "metaQTable oneTickEngine = getDefaultMetaQTable" "patternMemory oneTickEngine = []"
    "contextMemory oneTickEngine = []"
    by (simp_all add: oneTickEngine_def initialEngine_def)
  from updateQTable_frame[of oneTickEngine "''odd''" exampleConfig "''odd''" 1 "''low_neutral_short''"] q
  obtain s' where s': "updateQTable exampleConfig oneTickEngine ''odd'' ''odd'' 1 ''low_neutral_short'' = Inr s'"
    and f1: "\<forall>k a. (k, a) \<noteq> (''odd'', ''odd'') \<longrightarrow> cell (qTable s') k a = cell (qTable oneTickEngine) k a"
    and f2: "\<forall>k a. (k, a) \<noteq> (''low_neutral_short'', ''odd'') \<longrightarrow>
                    cell (deepQTable s') k a = cell (deepQTable oneTickEngine) k a"
    and f3: "patternMemory s' = patternMemory oneTickEngine" "contextMemory s' = contextMemory oneTickEngine"
            "metaQTable s' = metaQTable oneTickEngine"
    by blast
  from f1 c have "cell (qTable s') ''odd'' ''even'' = Some (Num 0.5)"
    "cell (qTable s') ''even'' ''odd'' = Some (Num 0.5)" by simp_all
  moreover from f2 c have "cell (deepQTable s') ''low_neutral_short'' ''even'' = Some (Num 0.5)"
    "cell (deepQTable s') ''high_bullish_long'' ''odd'' = Some (Num 0.5)" by simp_all
  ultimately show ?thesis using s' f3 m by simp
qed

section \<open>Properties of the stake\<close>

lemma selectStrategy_returns:
  assumes "[] \<notin> snd ` set metaQ"
  shows "\<exists>strategy. selectStrategy metaQ volatility entropy = Inr strategy"
proof -
  define state where "state =
    (if volatility < 0.3 then ''low'' else if volatility < 0.7 then ''medium'' else ''high'')
      @ ''_'' @ (if entropy < 0.7 then ''low'' else if entropy < 0.9 then ''medium'' else ''high'')"
  have unfold: "selectStrategy metaQ volatility entropy =
    (case map_of metaQ state of
       None \<Rightarrow> Inr ''balanced''
     | Some strategies \<Rightarrow>
         (case map fst strategies of
            [] \<Rightarrow> Inl TypeError
          | k # ks \<Rightarrow>
              Inr (fold (\<lambda>b a. if num_gt (lookup_num strategies a) (lookup_num strategies b)
                                then a else b) ks k)))"
    unfolding selectStrategy_def state_def Let_def ..
  show ?thesis
  proof (cases "map_of metaQ state")
    case None
    then show ?thesis by (simp only: unfold option.case) blast
  next
    case (Some r)
    then have "(state, r) \<in> set metaQ" by (rule map_of_SomeD)
    then have "r \<in> snd ` set metaQ" by force
    with assms have "r \<noteq> []" by (intro notI) simp
    then obtain p ps where "r = p # ps" by (cases r) auto
    then have "map fst r = fst p # map fst ps" by simp
    with Some show ?thesis by (simp only: unfold option.case list.case) blast
  qed
qed

text \<open>
  \<^bold>\<open>C5\<close>. Whatever the number of consecutive losses, the strategy selected and the
  confidence, \<open>calculateStake\<close> returns a stake of at most \<open>10 \<times> baseStake\<close> (it returns one
  whenever no row of the meta table is empty, which is what \<open>selectStrategy\<close> needs).
\<close>

theorem stake_capped:
  assumes "[] \<notin> snd ` set (metaQTable s)"
  shows "\<exists>stake. calculateStake cfg s volatility entropy confidence = Inr stake \<and>
                 stake \<le> 10 * baseStake cfg"
proof -
  from selectStrategy_returns[OF assms]
  obtain strategy where "selectStrategy (metaQTable s) volatility entropy = Inr strategy" by blast
  then show ?thesis
    by (simp add: calculateStake_def Let_def)
qed

lemma default_meta_rows: "[] \<notin> snd ` set getDefaultMetaQTable"
  by (simp add: getDefaultMetaQTable_def)

theorem stake_capped_witness:
  "[] \<notin> snd ` set (metaQTable losingEngine) \<and>
   calculateStake exampleConfig losingEngine 0.1 0.5 0.9 = Inr 10 \<and>
   (10::real) \<le> 10 * baseStake exampleConfig"
proof -
  have h: "[] \<notin> snd ` set (metaQTable losingEngine)"
    by (simp add: losingEngine_def oneTickEngine_def initialEngine_def default_meta_rows)
  from stake_capped[OF h, of exampleConfig "0.1" "0.5" "0.9"]
  obtain stake where s: "calculateStake exampleConfig losingEngine 0.1 0.5 0.9 = Inr stake"
    and b: "stake \<le> 10 * baseStake exampleConfig" by blast
  have e: "calculateStake exampleConfig losingEngine 0.1 0.5 0.9 = Inr 10"
    by (simp add: calculateStake_def selectStrategy_def losingEngine_def oneTickEngine_def
        initialEngine_def getDefaultMetaQTable_def exampleConfig_def lookup_num_def js_round_def Let_def)
  from s e have "stake = 10" by simp
  with b h e show ?thesis by simp
qed

section \<open>Properties of ingestion\<close>

text \<open>
  \<^bold>\<open>C8\<close>. A tick whose price does not parse to a number, or whose epoch is not greater
  than the epoch of the newest buffered tick, leaves the whole engine as it was and
  schedules no analysis.
\<close>

theorem ingest_rejects:
  assumes "m_quote msg = None \<or>
           (tickHistory s \<noteq> [] \<and> m_epoch msg \<le> epoch (last (tickHistory s)))"
  shows "handleTick cfg now s msg = (s, False)"
  using assms by (auto simp: handleTick_def Let_def split: option.splits)

theorem ingest_rejects_witness:
  "handleTick exampleConfig 1000 oneTickEngine \<lparr>m_epoch = 6, m_quote = None\<rparr> = (oneTickEngine, False) \<and>
   handleTick exampleConfig 1000 oneTickEngine \<lparr>m_epoch = 5, m_quote = Some 100.03\<rparr> = (oneTickEngine, False) \<and>
   handleTick exampleConfig 1000 oneTickEngine \<lparr>m_epoch = 4, m_quote = Some 100.03\<rparr> = (oneTickEngine, False)"
proof -
  have 1: "m_quote \<lparr>m_epoch = 6, m_quote = None\<rparr> = None" by simp
  have 2: "tickHistory oneTickEngine \<noteq> [] \<and>
           m_epoch \<lparr>m_epoch = 5, m_quote = Some 100.03\<rparr> \<le> epoch (last (tickHistory oneTickEngine))"
    by (simp add: oneTickEngine_def)
  have 3: "tickHistory oneTickEngine \<noteq> [] \<and>
           m_epoch \<lparr>m_epoch = 4, m_quote = Some 100.03\<rparr> \<le> epoch (last (tickHistory oneTickEngine))"
    by (simp add: oneTickEngine_def)
  show ?thesis
    using ingest_rejects[OF disjI1[OF 1]] ingest_rejects[OF disjI2[OF 2]] ingest_rejects[OF disjI2[OF 3]]
    by simp
qed

lemma initial_integrity: "integrity_inv (initialEngine cfg now)"
  by (simp add: integrity_inv_def initialEngine_def)

lemma validate_prev:
  "fst (validateTickData s t (previousTick s))
     = (\<not> anomalous s (quote t))"
  "integrityScore (snd (validateTickData s t
       (previousTick s))) =
     (if anomalous s (quote t) then max 0.5 (integrityScore s * 0.95)
      else if recentAnomalies s > 0 \<and> tickHistory s \<noteq> [] then min 1 (integrityScore s + 0.01)
      else integrityScore s)"
  "recentAnomalies (snd (validateTickData s t
       (previousTick s))) =
     (if anomalous s (quote t) then recentAnomalies s + 1
      else if recentAnomalies s > 0 \<and> tickHistory s \<noteq> [] then max 0 (recentAnomalies s - 0.1)
      else recentAnomalies s)"
  by (auto simp: validateTickData_def anomalous_def previousTick_def Let_def)

lemma validate_frame:
  "tickHistory (snd (validateTickData s t p)) = tickHistory s"
  "isBotRunning (snd (validateTickData s t p)) = isBotRunning s"
  "isPending (snd (validateTickData s t p)) = isPending s"
  "currentContractId (snd (validateTickData s t p)) = currentContractId s"
  "nextTradeTime (snd (validateTickData s t p)) = nextTradeTime s"
  by (simp_all add: validateTickData_def Let_def split: option.splits)

lemma autoTune_frame:
  "tickHistory (autoTuneLearningParameters cfg s) = tickHistory s"
  "integrityScore (autoTuneLearningParameters cfg s) = integrityScore s"
  "recentAnomalies (autoTuneLearningParameters cfg s) = recentAnomalies s"
  "isBotRunning (autoTuneLearningParameters cfg s) = isBotRunning s"
  "isPending (autoTuneLearningParameters cfg s) = isPending s"
  "currentContractId (autoTuneLearningParameters cfg s) = currentContractId s"
  "nextTradeTime (autoTuneLearningParameters cfg s) = nextTradeTime s"
  "lastPerformanceLog (autoTuneLearningParameters cfg s) = lastPerformanceLog s"
  by (simp_all add: autoTuneLearningParameters_def Let_def)

lemma cooldown_frame:
  "tickHistory (snd (shouldEnterCooldown now s)) = tickHistory s"
  "integrityScore (snd (shouldEnterCooldown now s)) = integrityScore s"
  "recentAnomalies (snd (shouldEnterCooldown now s)) = recentAnomalies s"
  by (simp_all add: shouldEnterCooldown_def Let_def)

lemmas step_frames = validate_frame autoTune_frame cooldown_frame

lemma handleTick_buffer:
  assumes "m_quote msg = Some q"
    and "tickHistory s = [] \<or> epoch (last (tickHistory s)) < m_epoch msg"
  shows "tickHistory (fst (handleTick cfg now s msg)) =
           (let pushed = tickHistory s @ [\<lparr>epoch = m_epoch msg, quote = q, digit = js_rem \<lfloor>q * 100\<rfloor> 10\<rparr>]
            in if length pushed > maxHistory cfg then tl pushed else pushed)"
  using assms by (simp add: handleTick_def Let_def case_prod_beta step_frames)

lemma handleTick_integrity:
  assumes "m_quote msg = Some q"
    and "tickHistory s = [] \<or> epoch (last (tickHistory s)) < m_epoch msg"
  shows "integrityScore (fst (handleTick cfg now s msg)) =
           (if anomalous s q then max 0.5 (integrityScore s * 0.95)
            else if recentAnomalies s > 0 \<and> tickHistory s \<noteq> [] then min 1 (integrityScore s + 0.01)
            else integrityScore s)"
    and "recentAnomalies (fst (handleTick cfg now s msg)) =
           (if anomalous s q then recentAnomalies s + 1
            else if recentAnomalies s > 0 \<and> tickHistory s \<noteq> [] then max 0 (recentAnomalies s - 0.1)
            else recentAnomalies s)"
  using assms
  by (simp_all add: handleTick_def Let_def case_prod_beta step_frames validate_prev)


lemma handleTick_keeps_integrity:
  assumes "integrity_inv s"
  shows "integrity_inv (fst (handleTick cfg now s msg))"
proof (cases "\<exists>q. m_quote msg = Some q \<and>
                  (tickHistory s = [] \<or> epoch (last (tickHistory s)) < m_epoch msg)")
  case False
  then have "handleTick cfg now s msg = (s, False)"
    by (auto simp: handleTick_def Let_def split: option.splits)
  with assms show ?thesis by simp
next
  case True
  then obtain q where a: "m_quote msg = Some q"
    "tickHistory s = [] \<or> epoch (last (tickHistory s)) < m_epoch msg" by blast
  let ?s' = "fst (handleTick cfg now s msg)"
  note buf = handleTick_buffer[OF a, of cfg now]
  note sc = handleTick_integrity(1)[OF a, of cfg now]
  note an = handleTick_integrity(2)[OF a, of cfg now]
  from assms have inv: "0.5 \<le> integrityScore s" "integrityScore s \<le> 1" "0 \<le> recentAnomalies s"
    "1 - integrityScore s \<le> 0.05 * recentAnomalies s" "tickHistory s \<noteq> [] \<or> integrityScore s = 1"
    by (simp_all add: integrity_inv_def)
  have "tickHistory ?s' \<noteq> [] \<or> integrityScore ?s' = 1"
  proof (cases "tickHistory s = []")
    case True
    then have "\<not> anomalous s q" by (simp add: anomalous_def)
    with True inv(5) show ?thesis by (simp add: sc)
  next
    case False
    then obtain x xs where "tickHistory s = x # xs" by (cases "tickHistory s") auto
    then show ?thesis by (simp add: buf Let_def)
  qed
  moreover have "0.5 \<le> integrityScore ?s'" "integrityScore ?s' \<le> 1" "0 \<le> recentAnomalies ?s'"
    "1 - integrityScore ?s' \<le> 0.05 * recentAnomalies ?s'"
    using inv(1-4) by (auto simp: sc an min_def max_def)
  ultimately show ?thesis by (simp add: integrity_inv_def)
qed

lemma ingested_integrity: "ingested cfg s \<Longrightarrow> integrity_inv s"
  by (induction rule: ingested.induct) (simp_all add: initial_integrity handleTick_keeps_integrity)



section \<open>The meta-table update after a trade\<close>

lemma updateQTable_meta:
  "updateQTable cfg s state action reward deepState = Inr s' \<Longrightarrow>
     metaQTable s' = metaQTable s \<and> tickHistory s' = tickHistory s"
  by (auto simp: updateQTable_def Let_def split: option.splits)

lemma storeContext_meta:
  "metaQTable (storeContext cfg s tr result) = metaQTable s"
  "tickHistory (storeContext cfg s tr result) = tickHistory s"
  by (simp_all add: storeContext_def Let_def)

lemma storePattern_meta: "metaQTable (storePattern cfg s sq outcome wasCorrect) = metaQTable s"
  by (simp add: storePattern_def Let_def)

lemma processContractResult_meta:
  assumes "tradeHistory s \<noteq> []"
    and "processContractResult cfg s profit = Inr s'"
  shows "metaQTable s' =
     updateMetaQTable (metaQTable s)
       (if t_volatility (last (tradeHistory s)) < 0.3 then ''low''
        else if t_volatility (last (tradeHistory s)) < 0.7 then ''medium'' else ''high'')
       (if t_entropy (last (tradeHistory s)) < 0.7 then ''low''
        else if t_entropy (last (tradeHistory s)) < 0.9 then ''medium'' else ''high'')
       (if t_mode (last (tradeHistory s)) = [] then ''balanced'' else t_mode (last (tradeHistory s)))
       (if profit > 0 then 1 else - 1)"
proof -
  define s1 where "s1 = (if profit > 0
                then s\<lparr>wins := wins s + 1, consecutiveLosses := 0\<rparr>
                else s\<lparr>losses := losses s + 1, consecutiveLosses := consecutiveLosses s + 1\<rparr>)"
  define lastTrade where "lastTrade = (last (tradeHistory s1))\<lparr>t_profit := Some profit\<rparr>"
  define s2 where "s2 = s1\<lparr>tradeHistory := butlast (tradeHistory s1) @ [lastTrade]\<rparr>"
  have s1: "tradeHistory s1 = tradeHistory s" "metaQTable s1 = metaQTable s"
    by (simp_all add: s1_def)
  have s2: "metaQTable s2 = metaQTable s" by (simp add: s2_def s1)
  have lt: "t_volatility lastTrade = t_volatility (last (tradeHistory s))"
    "t_entropy lastTrade = t_entropy (last (tradeHistory s))"
    "t_mode lastTrade = t_mode (last (tradeHistory s))"
    by (simp_all add: lastTrade_def s1)
  from assms obtain s3 where
    s3: "updateQTable cfg s2 (t_state lastTrade) (t_prediction lastTrade)
           (if profit > 0 then 1 else - 1) (t_deepState lastTrade) = Inr s3"
    unfolding processContractResult_def Let_def s1_def[symmetric] lastTrade_def[symmetric]
      s2_def[symmetric]
    by (simp add: s1 split: sum.splits)
  from assms s3 show ?thesis
    unfolding processContractResult_def Let_def s1_def[symmetric] lastTrade_def[symmetric]
      s2_def[symmetric]
    using updateQTable_meta[OF s3]
    by (auto simp: s1 s2 lt storeContext_meta storePattern_meta split: if_splits)
qed

lemma exploration_returns:
  "\<exists>s'. processContractResult exampleConfig explorationEngine 0.95 = Inr s'"
proof -
  have "map_of (qTable explorationEngine) ''odd'' \<noteq> None"
    by (simp add: explorationEngine_def initialEngine_def getDefaultQTable_def)
  then obtain qrow where "map_of (qTable explorationEngine) ''odd'' = Some qrow" by blast
  then show ?thesis
    by (simp add: processContractResult_def updateQTable_def Let_def explorationEngine_def
        explorationTrade_def)
qed

lemma meta_exploration:
  "map_of (updateMetaQTable getDefaultMetaQTable ''low'' ''high'' ''exploration'' 1) ''low_high''
   = Some [(''conservative'', Num 0.5), (''balanced'', Num 0.5), (''aggressive'', Num 0.5),
           (''exploration'', NaN)]"
  by (simp add: updateMetaQTable_def getDefaultMetaQTable_def lookup_num_def num_add_def
      num_mul_def num_sub_def num_max_def AList.update_conv')

text \<open>A strategy that is not a key of the bucket is added to it, with the value \<open>NaN\<close>.\<close>

lemma update_absent: "k \<notin> fst ` set al \<Longrightarrow> AList.update k v al = al @ [(k, v)]"
  by (induction al) auto

lemma meta_update_absent_key:
  assumes "map_of metaQ (volatilityState @ ''_'' @ entropyState) = Some r"
    and "strategy \<notin> fst ` set r"
  shows "map_of (updateMetaQTable metaQ volatilityState entropyState strategy reward)
           (volatilityState @ ''_'' @ entropyState) = Some (r @ [(strategy, NaN)])"
proof -
  from assms(2) have "map_of r strategy = None"
    by (simp add: map_of_eq_None_iff)
  then have "lookup_num r strategy = NaN" by (simp add: lookup_num_def)
  then show ?thesis
    using assms
    by (simp add: updateMetaQTable_def Let_def num_add_def AList.update_conv' update_absent)
qed

text \<open>
  \<^bold>\<open>C3\<close>, the code at a failing input. The claim is that after every learning update
  each bucket maps exactly the three strategy variants to numbers, and that the update is
  applied to the strategy variant used for the trade. \<open>processContractResult\<close> hands
  \<open>updateMetaQTable\<close> the operating mode recorded with the trade instead: after a winning
  trade made in exploration mode, the bucket \<open>low_high\<close> holds the three variants with
  their old values and a fourth key \<open>exploration\<close> with the value \<open>NaN\<close>.
\<close>

theorem meta_update_keyed_by_mode:
  "(case processContractResult exampleConfig explorationEngine 0.95 of
      Inl e \<Rightarrow> None
    | Inr s' \<Rightarrow> map_of (metaQTable s') ''low_high'')
   = Some [(''conservative'', Num 0.5), (''balanced'', Num 0.5), (''aggressive'', Num 0.5),
           (''exploration'', NaN)]"
proof -
  from exploration_returns obtain s' where
    r: "processContractResult exampleConfig explorationEngine 0.95 = Inr s'" by blast
  have th: "tradeHistory explorationEngine \<noteq> []"
    by (simp add: explorationEngine_def)
  have "metaQTable s' = updateMetaQTable getDefaultMetaQTable ''low'' ''high'' ''exploration'' 1"
    using processContractResult_meta[OF th r]
    by (simp add: explorationEngine_def explorationTrade_def initialEngine_def)
  with r show ?thesis by (simp add: meta_exploration)
qed

section \<open>Properties of the prediction models\<close>




































text \<open>
  The trend pair adds the volatility adjustment to both of its entries, so its sum is 1
  plus twice the adjustment.
\<close>

lemma trend_pair_sum:
  "pair_sum (trendProbs recent) =
     (case trendScore (js_div (calculateEMA recent 10 - calculateEMA recent 50) (calculateEMA recent 50)) of
        Num t \<Rightarrow> Num (1 + 2 * volatilityAdjustment (calculateVolatility recent 50))
      | NaN \<Rightarrow> NaN)"
  by (simp add: pair_sum_def trendProbs_def calculateEMAs_def Let_def num_add_def num_sub_def
      split: jsnum.splits)


end
